theory Spec2Isabelle
  imports Complex_Main "HOL-Library.Word"
begin

section \<open>The radial solutions of PCMSolver (green/InterfacesImpl.hpp)\<close>

text \<open>
  A shallow embedding of namespace \<open>interfaces\<close>. C++ \<open>double\<close> is read as
  \<^typ>\<open>real\<close> (exact arithmetic: rounding, infinities and NaN are outside the model),
  C++ \<open>int\<close> as a 32-bit word read in two's complement by \<^const>\<open>sint\<close>, so that
  integer arithmetic done before the promotion to \<open>double\<close> wraps as it does on the
  machine.
\<close>

subsection \<open>Data\<close>

text \<open>
  \<open>StateType\<close> is \<open>std::vector<double>\<close>; every state vector of the file is made with
  two entries (\<open>StateType init_zeta_(2)\<close>) and only \<open>[0]\<close> and \<open>[1]\<close> are read or
  written, so a state is the pair of the function value and its first derivative.
\<close>

type_synonym StateType = "real \<times> real"

text \<open>
  \<open>RadialSolution\<close> is \<open>std::array<StateType, 3>\<close>: \<open>f[0]\<close> the grid, \<open>f[1]\<close> the
  function and \<open>f[2]\<close> its first derivative, each a vector of any length.
\<close>

record RadialSolution =
  grid :: "real list"
  func :: "real list"
  deriv :: "real list"

type_synonym ProfileEvaluator = "real \<Rightarrow> real \<times> real"

record IntegratorParameters =
  eps_abs :: real
  eps_rel :: real
  factor_x :: real
  factor_dxdt :: real
  r_0 :: real
  r_infinity :: real
  observer_step :: real

text \<open>The one exception of the file: \<open>std::domain_error\<close>.\<close>

datatype error = DomainError

text \<open>
  The constructor of \<open>IntegratorParameters\<close> is a member-initialiser list with an empty
  body. It is given a result type so that ``construction fails'' can be said; the source
  has no branch that returns \<open>Inl\<close>.
\<close>

definition new_IntegratorParameters ::
  "real \<Rightarrow> real \<Rightarrow> real \<Rightarrow> real \<Rightarrow> real \<Rightarrow> real \<Rightarrow> real \<Rightarrow> error + IntegratorParameters" where
  "new_IntegratorParameters e_abs e_rel f_x f_dxdt r0 rinf step =
     Inr \<lparr>eps_abs = e_abs, eps_rel = e_rel, factor_x = f_x, factor_dxdt = f_dxdt,
          r_0 = r0, r_infinity = rinf, observer_step = step\<rparr>"

subsection \<open>The system of first-order equations\<close>

text \<open>
  \<open>LnTransformedRadial::operator()\<close>. \<open>numericalZero\<close> lives in MathUtils.hpp, which
  is not among the sources: it is the parameter \<open>nz\<close>. The out-parameter \<open>drhodr\<close> is
  the result. \<open>l_ * (l_ + 1)\<close> is a product of two \<open>int\<close>s, promoted to \<open>double\<close>
  only for the division.
\<close>

definition LnTransformedRadial ::
  "(real \<Rightarrow> bool) \<Rightarrow> ProfileEvaluator \<Rightarrow> 32 word \<Rightarrow> StateType \<Rightarrow> real \<Rightarrow> error + StateType" where
  "LnTransformedRadial nz eval l rho r =
     (case eval r of (eps, epsPrime) \<Rightarrow>
        if nz eps then Inl DomainError
        else let gamma_epsilon = epsPrime / eps in
          Inr (snd rho,
               - snd rho * (snd rho + 2 / r + gamma_epsilon)
                 + real_of_int (sint (l * (l + 1))) / r ^ 2))"

text \<open>
  Modelled from the spec: \<open>numericalZero\<close> of MathUtils.hpp, ``numerically zero (within a
  fixed tolerance)''; the tolerance, which the spec does not give, is the first argument.
\<close>

definition numericalZero :: "real \<Rightarrow> real \<Rightarrow> bool" where
  "numericalZero tol x \<longleftrightarrow> \<bar>x\<bar> \<le> tol"

subsection \<open>Recording and reversing\<close>

definition observer :: "RadialSolution \<Rightarrow> StateType \<Rightarrow> real \<Rightarrow> RadialSolution" where
  "observer f x r =
     \<lparr>grid = grid f @ [r], func = func f @ [fst x], deriv = deriv f @ [snd x]\<rparr>"

definition reverse :: "RadialSolution \<Rightarrow> RadialSolution" where
  "reverse f = \<lparr>grid = rev (grid f), func = rev (func f), deriv = rev (deriv f)\<rparr>"

subsection \<open>The integrator\<close>

text \<open>
  \<open>odeint::integrate_adaptive\<close> and the stepper belong to Boost, not to this repository.
  All the file hands to them is two callbacks: the system and the bound observer. A run of
  the integrator is therefore any finite sequence of calls of the two, each call of the
  system answered by the derivative it wrote: \<open>Observe x r k\<close> reports the state \<open>x\<close> at
  \<open>r\<close> and goes on as \<open>k\<close>, \<open>Rhs x r k\<close> calls the system at \<open>(x, r)\<close> and goes on as
  \<open>k drhodr\<close>, \<open>Done\<close> returns. An integrator maps the stepper's four tolerances, the
  start state, the start, the end and the step to such a run. An integration that never
  returns is not a run: whether odeint's loop ends is not decided by this file.
\<close>

datatype integration =
    Done
  | Observe StateType real integration
  | Rhs StateType real "StateType \<Rightarrow> integration"

type_synonym integrator =
  "real \<times> real \<times> real \<times> real \<Rightarrow> StateType \<Rightarrow> real \<Rightarrow> real \<Rightarrow> real \<Rightarrow> integration"

text \<open>
  Running an integration against a system and a solution held by reference. An exception
  thrown by the system leaves the integrator at once; nothing in this file catches it. The
  result is the solution as the caller finds it afterwards and the exception, if any.
\<close>

primrec run ::
  "(StateType \<Rightarrow> real \<Rightarrow> error + StateType) \<Rightarrow> integration \<Rightarrow> RadialSolution
     \<Rightarrow> RadialSolution \<times> error option" where
  "run sys Done = (\<lambda>f. (f, None))"
| "run sys (Observe x r k) = (\<lambda>f. run sys k (observer f x r))"
| "run sys (Rhs x r k) =
     (\<lambda>f. case sys x r of Inl e \<Rightarrow> (f, Some e) | Inr d \<Rightarrow> run sys (k d) f)"

subsection \<open>The two radial solutions\<close>

definition computeZeta ::
  "integrator \<Rightarrow> (real \<Rightarrow> bool) \<Rightarrow> 32 word \<Rightarrow> RadialSolution \<Rightarrow> ProfileEvaluator
     \<Rightarrow> IntegratorParameters \<Rightarrow> RadialSolution \<times> error option" where
  "computeZeta integrate_adaptive nz L f eval params =
     (let stepper = (eps_abs params, eps_rel params, factor_x params, factor_dxdt params);
          system = LnTransformedRadial nz eval L;
          init_zeta = (real_of_int (sint L) * ln (r_0 params),
                       real_of_int (sint L) / r_0 params)
      in run system
           (integrate_adaptive stepper init_zeta
              (r_0 params) (r_infinity params) (observer_step params)) f)"

definition computeOmega ::
  "integrator \<Rightarrow> (real \<Rightarrow> bool) \<Rightarrow> 32 word \<Rightarrow> RadialSolution \<Rightarrow> ProfileEvaluator
     \<Rightarrow> IntegratorParameters \<Rightarrow> RadialSolution \<times> error option" where
  "computeOmega integrate_adaptive nz L f eval params =
     (let stepper = (eps_abs params, eps_rel params, factor_x params, factor_dxdt params);
          system = LnTransformedRadial nz eval L;
          init_omega = (real_of_int (sint (- (L + 1))) * ln (r_infinity params),
                        real_of_int (sint (- (L + 1))) / r_infinity params)
      in case run system
                (integrate_adaptive stepper init_omega
                   (r_infinity params) (r_0 params) (- observer_step params)) f of
           (f', Some e) \<Rightarrow> (f', Some e)
         | (f', None) \<Rightarrow> (reverse f', None))"

text \<open>
  The integrations that \<open>computeZeta\<close> and \<open>computeOmega\<close> start: the arguments they
  pass to \<open>integrate_adaptive\<close>, named so that properties of the run can be stated.
\<close>

definition zeta_call :: "integrator \<Rightarrow> 32 word \<Rightarrow> IntegratorParameters \<Rightarrow> integration" where
  "zeta_call integrate_adaptive L params =
     integrate_adaptive
       (eps_abs params, eps_rel params, factor_x params, factor_dxdt params)
       (real_of_int (sint L) * ln (r_0 params), real_of_int (sint L) / r_0 params)
       (r_0 params) (r_infinity params) (observer_step params)"

definition omega_call :: "integrator \<Rightarrow> 32 word \<Rightarrow> IntegratorParameters \<Rightarrow> integration" where
  "omega_call integrate_adaptive L params =
     integrate_adaptive
       (eps_abs params, eps_rel params, factor_x params, factor_dxdt params)
       (real_of_int (sint (- (L + 1))) * ln (r_infinity params),
        real_of_int (sint (- (L + 1))) / r_infinity params)
       (r_infinity params) (r_0 params) (- observer_step params)"

subsection \<open>Evaluating the solutions\<close>

text \<open>
  \<open>splineInterpolation\<close> lives in MathUtils.hpp too: it is the parameter \<open>spline\<close>,
  called with the point, the grid and the samples.
\<close>

type_synonym interpolation = "real \<Rightarrow> real list \<Rightarrow> real list \<Rightarrow> real"

definition zeta :: "interpolation \<Rightarrow> RadialSolution \<Rightarrow> 32 word \<Rightarrow> real \<Rightarrow> real \<Rightarrow> real" where
  "zeta splineInterpolation zeta_array L point lower_bound =
     (if point \<le> lower_bound then real_of_int (sint L) * ln point
      else splineInterpolation point (grid zeta_array) (func zeta_array))"

definition derivative_zeta ::
  "interpolation \<Rightarrow> RadialSolution \<Rightarrow> 32 word \<Rightarrow> real \<Rightarrow> real \<Rightarrow> real" where
  "derivative_zeta splineInterpolation zeta_array L point lower_bound =
     (if point \<le> lower_bound then real_of_int (sint L) / point
      else splineInterpolation point (grid zeta_array) (deriv zeta_array))"

definition omega :: "interpolation \<Rightarrow> RadialSolution \<Rightarrow> 32 word \<Rightarrow> real \<Rightarrow> real \<Rightarrow> real" where
  "omega splineInterpolation omega_array L point upper_bound =
     (if point \<ge> upper_bound then real_of_int (sint (- (L + 1))) * ln point
      else splineInterpolation point (grid omega_array) (func omega_array))"

definition derivative_omega ::
  "interpolation \<Rightarrow> RadialSolution \<Rightarrow> 32 word \<Rightarrow> real \<Rightarrow> real \<Rightarrow> real" where
  "derivative_omega splineInterpolation omega_array L point upper_bound =
     (if point \<ge> upper_bound then real_of_int (sint (- (L + 1))) / point
      else splineInterpolation point (grid omega_array) (deriv omega_array))"

subsection \<open>What a run reports and where it calls the system\<close>

text \<open>
  The points a run hands to the observer, in the order of the calls, up to the end of the
  run or to the call of the system that throws.
\<close>

primrec observations ::
  "(StateType \<Rightarrow> real \<Rightarrow> error + StateType) \<Rightarrow> integration \<Rightarrow> (StateType \<times> real) list" where
  "observations sys Done = []"
| "observations sys (Observe x r k) = (x, r) # observations sys k"
| "observations sys (Rhs x r k) =
     (case sys x r of Inl e \<Rightarrow> [] | Inr d \<Rightarrow> observations sys (k d))"

text \<open>The radii at which a run calls the system, the call that throws included.\<close>

primrec evaluations ::
  "(StateType \<Rightarrow> real \<Rightarrow> error + StateType) \<Rightarrow> integration \<Rightarrow> real list" where
  "evaluations sys Done = []"
| "evaluations sys (Observe x r k) = evaluations sys k"
| "evaluations sys (Rhs x r k) =
     r # (case sys x r of Inl e \<Rightarrow> [] | Inr d \<Rightarrow> evaluations sys (k d))"

text \<open>The observer called on a list of points, one after the other.\<close>

definition record_all :: "RadialSolution \<Rightarrow> (StateType \<times> real) list \<Rightarrow> RadialSolution" where
  "record_all f pts = foldl (\<lambda>g (x, r). observer g x r) f pts"

text \<open>The invariant the specification asks of a solution.\<close>

definition well_formed :: "RadialSolution \<Rightarrow> bool" where
  "well_formed f \<longleftrightarrow>
     length (func f) = length (grid f) \<and> length (deriv f) = length (grid f) \<and>
     2 \<le> length (grid f) \<and> sorted_wrt (<) (grid f)"

subsection \<open>The integrator as the specification describes it\<close>

text \<open>
  Modelled from the spec: the integrator, which is odeint's and missing from the sources.
  The specification (4.2) has it ``integrate forward from r_0 to r_infinity using an
  adaptive-step, dense-output method'' and, ``at each internal observation step of size
  observer_step, record (r, value, derivative)''; the dense output is there ``so
  intermediate points can be observed at a fixed cadence distinct from the adaptive step
  grid'', and the stepper family is ``an implementation choice''. Hence: the method is a
  parameter that takes the state from one radius to another by finitely many calls of the
  system (\<open>Eval\<close>) and arrives at the new state (\<open>Arrive\<close>). The integrator reports the
  start, then the point after every whole observation step that fits the interval, and
  the end of the interval last when the steps have not reached it. The backward integration
  is the same with a negative step. Two points are the model's reading where the
  specification is silent: that the end of the interval is reported (the invariant of at
  least two points for every interval with \<open>r_0 < r_infinity\<close> needs it), and what a
  step does that is zero or points away from the end (the properties below ask for a
  positive \<open>observer_step\<close> and say nothing of it).
\<close>

datatype stepping =
    Arrive StateType
  | Eval StateType real "StateType \<Rightarrow> stepping"

type_synonym dense_stepper =
  "real \<times> real \<times> real \<times> real \<Rightarrow> StateType \<Rightarrow> real \<Rightarrow> real \<Rightarrow> stepping"

primrec follow :: "stepping \<Rightarrow> (StateType \<Rightarrow> integration) \<Rightarrow> integration" where
  "follow (Arrive x) = (\<lambda>k. k x)"
| "follow (Eval x r c) = (\<lambda>k. Rhs x r (\<lambda>d. follow (c d) k))"

text \<open>
  Modelled from the spec: the reports of odeint's \<open>integrate_adaptive\<close>, missing from
  the sources: the point at hand, then the method's way to the next observation step, and
  after the last whole step the way to the end of the interval and the end point.
\<close>

primrec observe_steps ::
  "(StateType \<Rightarrow> real \<Rightarrow> real \<Rightarrow> stepping) \<Rightarrow> nat \<Rightarrow> StateType \<Rightarrow> real \<Rightarrow> real \<Rightarrow> real
     \<Rightarrow> integration" where
  "observe_steps go 0 x t dt t1 =
     Observe x t
       (if t = t1 then Done else follow (go x t t1) (\<lambda>x'. Observe x' t1 Done))"
| "observe_steps go (Suc n) x t dt t1 =
     Observe x t
       (follow (go x t (t + dt)) (\<lambda>x'. observe_steps go n x' (t + dt) dt t1))"

text \<open>
  Modelled from the spec: odeint's \<open>integrate_adaptive\<close>, missing from the sources, for
  a method and its tolerances: as many whole observation steps as fit between the start
  and the end.
\<close>

definition integrate_observed :: "dense_stepper \<Rightarrow> integrator" where
  "integrate_observed m stepper x0 t0 t1 dt =
     observe_steps (m stepper) (nat \<lfloor>(t1 - t0) / dt\<rfloor>) x0 t0 dt t1"



text \<open>A method to run it on: one explicit Euler step from radius to radius.\<close>

definition euler_method :: dense_stepper where
  "euler_method stepper x r r' =
     Eval x r (\<lambda>d. Arrive (fst x + (r' - r) * fst d, snd x + (r' - r) * snd d))"

subsection \<open>An integrator to run the definitions on\<close>

text \<open>
  Explicit Euler with equal steps, calling back in the order of odeint's
  \<open>integrate_adaptive\<close>: report the current point, then take a step (one call of the
  system), and report the end point last. The number of steps is the interval over the
  step, rounded up; an interval in the wrong direction has no step and one report.
\<close>

primrec euler_from :: "nat \<Rightarrow> StateType \<Rightarrow> real \<Rightarrow> real \<Rightarrow> integration" where
  "euler_from 0 x t h = Observe x t Done"
| "euler_from (Suc n) x t h =
     Observe x t
       (Rhs x t (\<lambda>d. euler_from n (fst x + h * fst d, snd x + h * snd d) (t + h) h))"

definition euler_adaptive :: integrator where
  "euler_adaptive stepper x0 t0 t1 dt =
     (let n = nat \<lceil>(t1 - t0) / dt\<rceil> in euler_from n x0 t0 ((t1 - t0) / real n))"

text \<open>
  The values they are run on: an empty solution, and parameters for the intervals
  \<open>[1, 3]\<close> with step 1 and \<open>[1/2, 1]\<close> with step 1/4.
\<close>

definition no_points :: RadialSolution where
  "no_points = \<lparr>grid = [], func = [], deriv = []\<rparr>"

definition interval_1_3 :: IntegratorParameters where
  "interval_1_3 =
     \<lparr>eps_abs = 1 / 10 ^ 10, eps_rel = 1 / 10 ^ 10, factor_x = 1, factor_dxdt = 1,
      r_0 = 1, r_infinity = 3, observer_step = 1\<rparr>"

definition interval_half_1 :: IntegratorParameters where
  "interval_half_1 =
     \<lparr>eps_abs = 1 / 10 ^ 10, eps_rel = 1 / 10 ^ 10, factor_x = 1, factor_dxdt = 1,
      r_0 = 1 / 2, r_infinity = 1, observer_step = 1 / 4\<rparr>"

section \<open>Properties\<close>

subsection \<open>Reversal\<close>

text \<open>
  C9. Reversing a solution twice gives the solution back, element for element in the grid,
  the function and the derivative.
\<close>

theorem reverse_reverse: "reverse (reverse f) = f"
  by (simp add: reverse_def)

subsection \<open>Signed 32-bit arithmetic\<close>

lemma sint_neg_succ: "sint (- (L + 1) :: 32 word) = - sint L - 1"
proof -
  have lo: "- (2 ^ 31) \<le> sint L" and hi: "sint L < 2 ^ 31"
    using sint_ge [of L] sint_lt [of L] by simp_all
  have "sint (- (L + 1)) = signed_take_bit 31 (- sint (L + 1))"
    using sint_word_minus [of "L + 1"] by simp
  also have "\<dots> = signed_take_bit 31 (- signed_take_bit 31 (sint L + 1))"
    using sint_word_add [of L 1] by simp
  also have "\<dots> = signed_take_bit 31 (- (sint L + 1))"
    by (simp only: signed_take_bit_minus)
  also have "\<dots> = - (sint L + 1)"
    using lo hi by (intro signed_take_bit_int_eq_self) simp_all
  finally show ?thesis by simp
qed

lemma real_sint_neg_succ:
  "real_of_int (sint (- (L + 1) :: 32 word)) = - (real_of_int (sint L) + 1)"
  unfolding sint_neg_succ by simp

lemma sint_mult_succ:
  assumes "- 46341 \<le> sint (l :: 32 word)" "sint l \<le> 46340"
  shows "sint (l * (l + 1)) = sint l * (sint l + 1)"
proof -
  have s: "sint (l + 1) = sint l + 1"
    using assms by (simp add: sint_word_ariths signed_take_bit_int_eq_self)
  have nonneg: "0 \<le> sint l * (sint l + 1)"
    by (cases "0 \<le> sint l") (simp_all add: mult_nonpos_nonpos)
  have "sint l * (sint l + 1) \<le> 46340 * 46341"
  proof (cases "0 \<le> sint l")
    case True
    then show ?thesis using assms by (intro mult_mono) simp_all
  next
    case False
    then have "sint l * (sint l + 1) = (- sint l - 1) * (- sint l)"
      by (simp add: algebra_simps)
    also have "\<dots> \<le> 46340 * 46341"
      using False assms by (intro mult_mono) simp_all
    finally show ?thesis .
  qed
  then have up: "sint l * (sint l + 1) < 2 ^ 31" by simp
  have "sint (l * (l + 1)) = signed_take_bit 31 (sint l * sint (l + 1))"
    by (simp add: sint_word_ariths)
  also have "\<dots> = sint l * (sint l + 1)"
    using nonneg up by (simp only: s) (intro signed_take_bit_int_eq_self, simp_all)
  finally show ?thesis .
qed

subsection \<open>What a run leaves in the solution\<close>

lemma grid_record_all: "grid (record_all f pts) = grid f @ map snd pts"
  unfolding record_all_def
  by (induction pts arbitrary: f) (simp_all add: observer_def split_beta)

lemma func_record_all: "func (record_all f pts) = func f @ map (fst \<circ> fst) pts"
  unfolding record_all_def
  by (induction pts arbitrary: f) (simp_all add: observer_def split_beta)

lemma deriv_record_all: "deriv (record_all f pts) = deriv f @ map (snd \<circ> fst) pts"
  unfolding record_all_def
  by (induction pts arbitrary: f) (simp_all add: observer_def split_beta)

lemma record_all_Cons: "record_all f ((x, r) # pts) = record_all (observer f x r) pts"
  by (simp add: record_all_def)

text \<open>
  Whether the run ends or throws, the solution holds what it held before, followed by the
  points observed.
\<close>

lemma run_fst: "fst (run sys t f) = record_all f (observations sys t)"
proof (induction t arbitrary: f)
  case Done
  then show ?case by (simp add: record_all_def)
next
  case (Observe x r k)
  then show ?case by (simp add: record_all_Cons)
next
  case (Rhs x r k)
  show ?case
  proof (cases "sys x r")
    case (Inl e)
    then show ?thesis by (simp add: record_all_def)
  next
    case (Inr d)
    then show ?thesis using Rhs.IH [of "k d" f] by simp
  qed
qed

text \<open>A run throws when, and only when, it calls the system where the permittivity is zero.\<close>

lemma run_snd:
  "snd (run (LnTransformedRadial nz eval L) t f) =
     (if \<exists>r \<in> set (evaluations (LnTransformedRadial nz eval L) t). nz (fst (eval r))
      then Some DomainError else None)"
proof (induction t arbitrary: f)
  case Done
  then show ?case by simp
next
  case (Observe x r k)
  then show ?case by simp
next
  case (Rhs x r k)
  show ?case
  proof (cases "LnTransformedRadial nz eval L x r")
    case (Inl e)
    then have "nz (fst (eval r))"
      by (auto simp: LnTransformedRadial_def split: prod.splits if_splits)
    with Inl show ?thesis by (cases e) simp
  next
    case (Inr d)
    then have "\<not> nz (fst (eval r))"
      by (auto simp: LnTransformedRadial_def split: prod.splits if_splits)
    with Inr show ?thesis using Rhs.IH [of "k d" f] by simp
  qed
qed

lemma computeZeta_run:
  "computeZeta I nz L f eval p = run (LnTransformedRadial nz eval L) (zeta_call I L p) f"
  by (simp add: computeZeta_def zeta_call_def)

lemma computeOmega_run:
  "computeOmega I nz L f eval p =
     (case run (LnTransformedRadial nz eval L) (omega_call I L p) f of
        (f', Some e) \<Rightarrow> (f', Some e) | (f', None) \<Rightarrow> (reverse f', None))"
  by (simp add: computeOmega_def omega_call_def)

lemma computeOmega_snd:
  "snd (computeOmega I nz L f eval p)
     = snd (run (LnTransformedRadial nz eval L) (omega_call I L p) f)"
  by (simp add: computeOmega_run split: prod.splits option.splits)

lemma computeOmega_fst:
  "fst (computeOmega I nz L f eval p) =
     (let g = record_all f (observations (LnTransformedRadial nz eval L) (omega_call I L p))
      in if snd (computeOmega I nz L f eval p) = None then reverse g else g)"
proof -
  obtain f' res where r: "run (LnTransformedRadial nz eval L) (omega_call I L p) f = (f', res)"
    by (cases "run (LnTransformedRadial nz eval L) (omega_call I L p) f")
  have "f' = record_all f (observations (LnTransformedRadial nz eval L) (omega_call I L p))"
    using run_fst [of "LnTransformedRadial nz eval L" "omega_call I L p" f] r by simp
  then show ?thesis
    using r by (cases res) (simp_all add: computeOmega_run)
qed

text \<open>The concrete values the properties below are run on.\<close>

lemmas run_simps =
  computeZeta_def computeOmega_def zeta_call_def omega_call_def euler_adaptive_def
  LnTransformedRadial_def numericalZero_def observer_def reverse_def numeral_2_eq_2
  no_points_def interval_1_3_def interval_half_1_def

subsection \<open>The vector field\<close>

text \<open>
  Where the product \<open>l_ * (l_ + 1)\<close> fits an \<open>int\<close>, that is for \<open>l_\<close> from -46341 to
  46340, the system returns the vector field of the manuscript.
\<close>

lemma LnTransformedRadial_in_range:
  assumes "- 46341 \<le> sint L" "sint L \<le> 46340" "eval r = (eps, epsPrime)" "\<not> nz eps"
  shows "LnTransformedRadial nz eval L (v, d) r =
           Inr (d, - d * (d + 2 / r + epsPrime / eps)
                   + real_of_int (sint L) * (real_of_int (sint L) + 1) / r\<^sup>2)"
  using assms by (simp add: LnTransformedRadial_def sint_mult_succ)

text \<open>
  C1. The claim: for every angular momentum \<open>L\<close> the second component of the vector field
  is \<open>-d (d + 2/r + eps'/eps) + L (L + 1) / r\<^sup>2\<close>. The code multiplies \<open>l_\<close> and
  \<open>l_ + 1\<close> as \<open>int\<close>s before the promotion to \<open>double\<close>. At \<open>L = 46341\<close>, with the
  constant profile \<open>(1, 0)\<close>, the state \<open>(0, 0)\<close> and \<open>r = 1\<close>, the claimed value is
  \<open>46341 * 46342 = 2147534622\<close>; the 32-bit product wraps and the code returns
  \<open>-2147432674\<close>.
\<close>

theorem LnTransformedRadial_overflow:
  "LnTransformedRadial (numericalZero (1 / 10 ^ 14)) (\<lambda>r. (1, 0)) 46341 (0, 0) 1
     = Inr (0, - 2147432674)
   \<and> - 0 * (0 + 2 / 1 + 0 / 1) + real_of_int 46341 * (real_of_int 46341 + 1) / 1\<^sup>2
     = (2147534622 :: real)"
  by (simp add: LnTransformedRadial_def numericalZero_def)

subsection \<open>The parameters\<close>

text \<open>
  C7, as claimed: malformed parameters are rejected at construction. The constructor
  accepts \<open>r_0 = 2\<close> above \<open>r_infinity = 1\<close>, and \<open>r_0 = -1\<close>.
\<close>

theorem new_IntegratorParameters_accepts_malformed:
  "new_IntegratorParameters (1 / 10 ^ 10) (1 / 10 ^ 10) 1 1 2 1 (1 / 10)
     = Inr \<lparr>eps_abs = 1 / 10 ^ 10, eps_rel = 1 / 10 ^ 10, factor_x = 1, factor_dxdt = 1,
            r_0 = 2, r_infinity = 1, observer_step = 1 / 10\<rparr>
   \<and> new_IntegratorParameters (1 / 10 ^ 10) (1 / 10 ^ 10) 1 1 (- 1) 1 (1 / 10)
     = Inr \<lparr>eps_abs = 1 / 10 ^ 10, eps_rel = 1 / 10 ^ 10, factor_x = 1, factor_dxdt = 1,
            r_0 = - 1, r_infinity = 1, observer_step = 1 / 10\<rparr>"
  by (simp add: new_IntegratorParameters_def)

text \<open>
  C7, amended: the constructor checks nothing. For all seven arguments the construction
  succeeds, and the object holds the arguments as they were given.
\<close>

theorem new_IntegratorParameters_total:
  "\<exists>p. new_IntegratorParameters e_abs e_rel f_x f_dxdt r0 rinf step = Inr p
     \<and> eps_abs p = e_abs \<and> eps_rel p = e_rel \<and> factor_x p = f_x \<and> factor_dxdt p = f_dxdt
     \<and> r_0 p = r0 \<and> r_infinity p = rinf \<and> observer_step p = step"
  by (simp add: new_IntegratorParameters_def)

subsection \<open>The evaluators\<close>

text \<open>
  C4. For every solution, \<open>L\<close> and point: \<open>zeta\<close> is \<open>L ln(point)\<close> when the point is at
  most the lower bound and the spline of the grid and the function otherwise;
  \<open>derivative_zeta\<close> is \<open>L / point\<close> or the spline of the grid and the derivative;
  \<open>omega\<close> is \<open>-(L + 1) ln(point)\<close> when the point is at least the upper bound and the
  spline of the grid and the function otherwise; \<open>derivative_omega\<close> is
  \<open>-(L + 1) / point\<close> or the spline of the grid and the derivative. The comparisons are
  inclusive: a point equal to the bound takes the closed form. (\<open>-(L + 1)\<close> is computed
  on \<open>int\<close>; it is the integer \<open>-(L + 1)\<close> for every 32-bit \<open>L\<close>.)
\<close>

theorem evaluators_branches:
  "zeta spline f L point lower_bound =
     (if point \<le> lower_bound then real_of_int (sint L) * ln point
      else spline point (grid f) (func f))
   \<and> derivative_zeta spline f L point lower_bound =
     (if point \<le> lower_bound then real_of_int (sint L) / point
      else spline point (grid f) (deriv f))
   \<and> omega spline f L point upper_bound =
     (if point \<ge> upper_bound then - (real_of_int (sint L) + 1) * ln point
      else spline point (grid f) (func f))
   \<and> derivative_omega spline f L point upper_bound =
     (if point \<ge> upper_bound then - (real_of_int (sint L) + 1) / point
      else spline point (grid f) (deriv f))
   \<and> zeta spline f L lower_bound lower_bound = real_of_int (sint L) * ln lower_bound
   \<and> derivative_zeta spline f L lower_bound lower_bound = real_of_int (sint L) / lower_bound
   \<and> omega spline f L upper_bound upper_bound = - (real_of_int (sint L) + 1) * ln upper_bound
   \<and> derivative_omega spline f L upper_bound upper_bound
       = - (real_of_int (sint L) + 1) / upper_bound"
  by (simp only: zeta_def derivative_zeta_def omega_def derivative_omega_def
        real_sint_neg_succ) simp

subsection \<open>Runs of the specification's integrator\<close>











lemmas observed_simps = run_simps integrate_observed_def euler_method_def

subsection \<open>The regular solution\<close>



subsection \<open>The irregular solution\<close>



subsection \<open>The domain error\<close>

text \<open>
  C5. The system evaluates the profile at \<open>r\<close> and throws \<open>DomainError\<close> exactly when the
  permittivity returned is numerically zero. A call of \<open>computeZeta\<close> or \<open>computeOmega\<close>
  throws \<open>DomainError\<close> exactly when the permittivity is numerically zero at a radius where
  the integration calls the system; it throws nothing when those radii lie in
  \<open>[r_0, r_infinity]\<close> and the permittivity is not numerically zero anywhere on that
  interval.
\<close>

theorem DomainError_iff_zero_permittivity:
  "(LnTransformedRadial nz eval L rho r = Inl DomainError \<longleftrightarrow> nz (fst (eval r)))
   \<and> (snd (computeZeta I nz L f eval p) = Some DomainError \<longleftrightarrow>
        (\<exists>r \<in> set (evaluations (LnTransformedRadial nz eval L) (zeta_call I L p)).
           nz (fst (eval r))))
   \<and> (snd (computeOmega I nz L f eval p) = Some DomainError \<longleftrightarrow>
        (\<exists>r \<in> set (evaluations (LnTransformedRadial nz eval L) (omega_call I L p)).
           nz (fst (eval r))))
   \<and> ((\<forall>r \<in> set (evaluations (LnTransformedRadial nz eval L) (zeta_call I L p)).
          r_0 p \<le> r \<and> r \<le> r_infinity p)
        \<and> (\<forall>r. r_0 p \<le> r \<and> r \<le> r_infinity p \<longrightarrow> \<not> nz (fst (eval r)))
       \<longrightarrow> snd (computeZeta I nz L f eval p) = None)
   \<and> ((\<forall>r \<in> set (evaluations (LnTransformedRadial nz eval L) (omega_call I L p)).
          r_0 p \<le> r \<and> r \<le> r_infinity p)
        \<and> (\<forall>r. r_0 p \<le> r \<and> r \<le> r_infinity p \<longrightarrow> \<not> nz (fst (eval r)))
       \<longrightarrow> snd (computeOmega I nz L f eval p) = None)"
proof (intro conjI impI)
  show "LnTransformedRadial nz eval L rho r = Inl DomainError \<longleftrightarrow> nz (fst (eval r))"
    by (simp add: LnTransformedRadial_def split: prod.splits)
next
  show "snd (computeZeta I nz L f eval p) = Some DomainError \<longleftrightarrow>
        (\<exists>r \<in> set (evaluations (LnTransformedRadial nz eval L) (zeta_call I L p)).
           nz (fst (eval r)))"
    by (simp add: computeZeta_run run_snd)
next
  show "snd (computeOmega I nz L f eval p) = Some DomainError \<longleftrightarrow>
        (\<exists>r \<in> set (evaluations (LnTransformedRadial nz eval L) (omega_call I L p)).
           nz (fst (eval r)))"
    by (simp add: computeOmega_snd run_snd)
next
  assume "(\<forall>r \<in> set (evaluations (LnTransformedRadial nz eval L) (zeta_call I L p)).
          r_0 p \<le> r \<and> r \<le> r_infinity p)
        \<and> (\<forall>r. r_0 p \<le> r \<and> r \<le> r_infinity p \<longrightarrow> \<not> nz (fst (eval r)))"
  then have "\<not> (\<exists>r \<in> set (evaluations (LnTransformedRadial nz eval L) (zeta_call I L p)).
           nz (fst (eval r)))"
    by blast
  then show "snd (computeZeta I nz L f eval p) = None"
    by (simp only: computeZeta_run run_snd if_False)
next
  assume "(\<forall>r \<in> set (evaluations (LnTransformedRadial nz eval L) (omega_call I L p)).
          r_0 p \<le> r \<and> r \<le> r_infinity p)
        \<and> (\<forall>r. r_0 p \<le> r \<and> r \<le> r_infinity p \<longrightarrow> \<not> nz (fst (eval r)))"
  then have "\<not> (\<exists>r \<in> set (evaluations (LnTransformedRadial nz eval L) (omega_call I L p)).
           nz (fst (eval r)))"
    by blast
  then show "snd (computeOmega I nz L f eval p) = None"
    by (simp only: computeOmega_snd run_snd if_False)
qed

theorem DomainError_iff_zero_permittivity_witness:
  "evaluations (LnTransformedRadial (numericalZero (1 / 10 ^ 14)) (\<lambda>r. (1, 0)) 1)
      (zeta_call euler_adaptive 1 interval_1_3) = [1, 2]
   \<and> snd (computeZeta euler_adaptive (numericalZero (1 / 10 ^ 14)) 1 no_points
      (\<lambda>r. (1, 0)) interval_1_3) = None
   \<and> evaluations (LnTransformedRadial (numericalZero (1 / 10 ^ 14)) (\<lambda>r. (1, 0)) 0)
      (omega_call euler_adaptive 0 interval_half_1) = [1, 3 / 4]
   \<and> snd (computeOmega euler_adaptive (numericalZero (1 / 10 ^ 14)) 0 no_points
      (\<lambda>r. (1, 0)) interval_half_1) = None
   \<and> evaluations (LnTransformedRadial (numericalZero (1 / 10 ^ 14)) (\<lambda>r. (2 - r, - 1)) 0)
      (zeta_call euler_adaptive 0 interval_1_3) = [1, 2]
   \<and> numericalZero (1 / 10 ^ 14) (fst ((\<lambda>r. (2 - r, - 1)) (2 :: real)))
   \<and> snd (computeZeta euler_adaptive (numericalZero (1 / 10 ^ 14)) 0 no_points
      (\<lambda>r. (2 - r, - 1)) interval_1_3) = Some DomainError"
proof -
  let ?nz = "numericalZero (1 / 10 ^ 14)"
  let ?e = "no_points"
  let ?p = "interval_1_3"
  let ?q = "interval_half_1"
  have ez: "evaluations (LnTransformedRadial ?nz (\<lambda>r. (1, 0)) 1) (zeta_call euler_adaptive 1 ?p)
              = [1, 2]"
    by (simp add: run_simps)
  have eo: "evaluations (LnTransformedRadial ?nz (\<lambda>r. (1, 0)) 0) (omega_call euler_adaptive 0 ?q)
              = [1, 3 / 4]"
    by (simp add: run_simps)
  have eb: "evaluations (LnTransformedRadial ?nz (\<lambda>r. (2 - r, - 1)) 0)
              (zeta_call euler_adaptive 0 ?p) = [1, 2]"
    by (simp add: run_simps)
  have zero: "?nz (fst ((\<lambda>r. (2 - r, - 1)) (2 :: real)))"
    by (simp add: numericalZero_def)
  have z: "snd (computeZeta euler_adaptive ?nz 1 ?e (\<lambda>r. (1, 0)) ?p) = None"
    by (rule DomainError_iff_zero_permittivity
          [of ?nz "\<lambda>r. (1, 0)" 1 _ _ euler_adaptive ?e ?p,
           THEN conjunct2, THEN conjunct2, THEN conjunct2, THEN conjunct1, rule_format])
       (simp only: ez, simp add: interval_1_3_def numericalZero_def)
  have o: "snd (computeOmega euler_adaptive ?nz 0 ?e (\<lambda>r. (1, 0)) ?q) = None"
    by (rule DomainError_iff_zero_permittivity
          [of ?nz "\<lambda>r. (1, 0)" 0 _ _ euler_adaptive ?e ?q,
           THEN conjunct2, THEN conjunct2, THEN conjunct2, THEN conjunct2, rule_format])
       (simp only: eo, simp add: interval_half_1_def numericalZero_def)
  have b: "snd (computeZeta euler_adaptive ?nz 0 ?e (\<lambda>r. (2 - r, - 1)) ?p) = Some DomainError"
    by (rule DomainError_iff_zero_permittivity
          [of ?nz "\<lambda>r. (2 - r, - 1)" 0 _ _ euler_adaptive ?e ?p,
           THEN conjunct2, THEN conjunct1, THEN iffD2])
       (simp only: eb, simp add: numericalZero_def)
  from ez z eo o eb zero b show ?thesis by simp
qed

subsection \<open>What a failed integration leaves behind\<close>

text \<open>
  C6, as claimed: after a \<open>DomainError\<close> the solution object holds no recorded data. With
  \<open>L = 0\<close>, an empty solution, the interval \<open>[1, 3]\<close> and the profile \<open>(2 - r, -1)\<close>,
  which vanishes at \<open>r = 2\<close>, \<open>computeZeta\<close> records the points at \<open>r = 1\<close> and \<open>r = 2\<close>
  before the system throws at \<open>r = 2\<close>, and they stay in the caller's object. With the
  interval \<open>[1/2, 1]\<close> and the profile \<open>(r - 3/4, 1)\<close>, \<open>computeOmega\<close> leaves the points
  at \<open>r = 1\<close> and \<open>r = 3/4\<close>, in that order.
\<close>

theorem failed_integration_leaves_partial_result:
  "computeZeta euler_adaptive (numericalZero (1 / 10 ^ 14)) 0
      \<lparr>grid = [], func = [], deriv = []\<rparr> (\<lambda>r. (2 - r, - 1))
      \<lparr>eps_abs = 1 / 10 ^ 10, eps_rel = 1 / 10 ^ 10, factor_x = 1, factor_dxdt = 1,
       r_0 = 1, r_infinity = 3, observer_step = 1\<rparr>
     = (\<lparr>grid = [1, 2], func = [0, 0], deriv = [0, 0]\<rparr>, Some DomainError)
   \<and> computeOmega euler_adaptive (numericalZero (1 / 10 ^ 14)) 0
      \<lparr>grid = [], func = [], deriv = []\<rparr> (\<lambda>r. (r - 3 / 4, 1))
      \<lparr>eps_abs = 1 / 10 ^ 10, eps_rel = 1 / 10 ^ 10, factor_x = 1, factor_dxdt = 1,
       r_0 = 1 / 2, r_infinity = 1, observer_step = 1 / 4\<rparr>
     = (\<lparr>grid = [1, 3 / 4], func = [0, 1 / 4], deriv = [- 1, - 9 / 4]\<rparr>,
        Some DomainError)"
  by (simp add: run_simps)

text \<open>
  C6, amended: when \<open>computeZeta\<close> or \<open>computeOmega\<close> fails, it fails with
  \<open>DomainError\<close>, and the solution object holds what it held before the call followed by
  every point observed before the failing call of the system, in the order observed; after
  a failure \<open>computeOmega\<close> does not reverse.
\<close>

theorem failure_keeps_recorded_points:
  "(snd (computeZeta I nz L f eval p) = Some e \<longrightarrow>
      e = DomainError
      \<and> grid (fst (computeZeta I nz L f eval p))
          = grid f @ map snd (observations (LnTransformedRadial nz eval L) (zeta_call I L p))
      \<and> func (fst (computeZeta I nz L f eval p))
          = func f @ map (fst \<circ> fst)
                       (observations (LnTransformedRadial nz eval L) (zeta_call I L p))
      \<and> deriv (fst (computeZeta I nz L f eval p))
          = deriv f @ map (snd \<circ> fst)
                        (observations (LnTransformedRadial nz eval L) (zeta_call I L p)))
   \<and> (snd (computeOmega I nz L f eval p) = Some e \<longrightarrow>
      e = DomainError
      \<and> grid (fst (computeOmega I nz L f eval p))
          = grid f @ map snd (observations (LnTransformedRadial nz eval L) (omega_call I L p))
      \<and> func (fst (computeOmega I nz L f eval p))
          = func f @ map (fst \<circ> fst)
                       (observations (LnTransformedRadial nz eval L) (omega_call I L p))
      \<and> deriv (fst (computeOmega I nz L f eval p))
          = deriv f @ map (snd \<circ> fst)
                        (observations (LnTransformedRadial nz eval L) (omega_call I L p)))"
proof (intro conjI impI)
  show "e = DomainError" by (cases e) simp
  show "e = DomainError" by (cases e) simp
next
  show "grid (fst (computeZeta I nz L f eval p))
          = grid f @ map snd (observations (LnTransformedRadial nz eval L) (zeta_call I L p))"
    by (simp add: computeZeta_run run_fst grid_record_all)
  show "func (fst (computeZeta I nz L f eval p))
          = func f @ map (fst \<circ> fst)
                       (observations (LnTransformedRadial nz eval L) (zeta_call I L p))"
    by (simp add: computeZeta_run run_fst func_record_all)
  show "deriv (fst (computeZeta I nz L f eval p))
          = deriv f @ map (snd \<circ> fst)
                        (observations (LnTransformedRadial nz eval L) (zeta_call I L p))"
    by (simp add: computeZeta_run run_fst deriv_record_all)
next
  assume h: "snd (computeOmega I nz L f eval p) = Some e"
  then have g: "fst (computeOmega I nz L f eval p)
      = record_all f (observations (LnTransformedRadial nz eval L) (omega_call I L p))"
    using computeOmega_fst [of I nz L f eval p] by (simp add: Let_def)
  show "grid (fst (computeOmega I nz L f eval p))
          = grid f @ map snd (observations (LnTransformedRadial nz eval L) (omega_call I L p))"
    by (simp only: g grid_record_all)
  show "func (fst (computeOmega I nz L f eval p))
          = func f @ map (fst \<circ> fst)
                       (observations (LnTransformedRadial nz eval L) (omega_call I L p))"
    by (simp only: g func_record_all)
  show "deriv (fst (computeOmega I nz L f eval p))
          = deriv f @ map (snd \<circ> fst)
                        (observations (LnTransformedRadial nz eval L) (omega_call I L p))"
    by (simp only: g deriv_record_all)
qed

theorem failure_keeps_recorded_points_witness:
  "snd (computeZeta euler_adaptive (numericalZero (1 / 10 ^ 14)) 0
      \<lparr>grid = [10, 20], func = [7, 8], deriv = [5, 6]\<rparr> (\<lambda>r. (2 - r, - 1)) interval_1_3) = Some DomainError
   \<and> observations (LnTransformedRadial (numericalZero (1 / 10 ^ 14)) (\<lambda>r. (2 - r, - 1)) 0)
      (zeta_call euler_adaptive 0 interval_1_3)
     = [((0, 0), 1), ((0, 0), 2)]
   \<and> grid (fst (computeZeta euler_adaptive (numericalZero (1 / 10 ^ 14)) 0
      \<lparr>grid = [10, 20], func = [7, 8], deriv = [5, 6]\<rparr> (\<lambda>r. (2 - r, - 1)) interval_1_3)) = [10, 20, 1, 2]
   \<and> snd (computeOmega euler_adaptive (numericalZero (1 / 10 ^ 14)) 0
      \<lparr>grid = [10, 20], func = [7, 8], deriv = [5, 6]\<rparr> (\<lambda>r. (r - 3 / 4, 1)) interval_half_1) = Some DomainError
   \<and> observations (LnTransformedRadial (numericalZero (1 / 10 ^ 14)) (\<lambda>r. (r - 3 / 4, 1)) 0)
      (omega_call euler_adaptive 0 interval_half_1)
     = [((0, - 1), 1), ((1 / 4, - 9 / 4), 3 / 4)]
   \<and> grid (fst (computeOmega euler_adaptive (numericalZero (1 / 10 ^ 14)) 0
      \<lparr>grid = [10, 20], func = [7, 8], deriv = [5, 6]\<rparr> (\<lambda>r. (r - 3 / 4, 1)) interval_half_1)) = [10, 20, 1, 3 / 4]"
proof -
  let ?nz = "numericalZero (1 / 10 ^ 14)"
  let ?f = "\<lparr>grid = [10, 20], func = [7, 8], deriv = [5, 6 :: real]\<rparr>"
  let ?p = "interval_1_3"
  let ?q = "interval_half_1"
  have z: "snd (computeZeta euler_adaptive ?nz 0 ?f (\<lambda>r. (2 - r, - 1)) ?p) = Some DomainError"
    by (simp add: run_simps)
  have o: "snd (computeOmega euler_adaptive ?nz 0 ?f (\<lambda>r. (r - 3 / 4, 1)) ?q)
             = Some DomainError"
    by (simp add: run_simps)
  have oz: "observations (LnTransformedRadial ?nz (\<lambda>r. (2 - r, - 1)) 0)
              (zeta_call euler_adaptive 0 ?p) = [((0, 0), 1), ((0, 0), 2)]"
    by (simp add: run_simps)
  have oo: "observations (LnTransformedRadial ?nz (\<lambda>r. (r - 3 / 4, 1)) 0)
              (omega_call euler_adaptive 0 ?q) = [((0, - 1), 1), ((1 / 4, - 9 / 4), 3 / 4)]"
    by (simp add: run_simps)
  have gz: "grid (fst (computeZeta euler_adaptive ?nz 0 ?f (\<lambda>r. (2 - r, - 1)) ?p))
              = [10, 20, 1, 2]"
    using failure_keeps_recorded_points
      [of euler_adaptive ?nz 0 ?f "\<lambda>r. (2 - r, - 1)" ?p DomainError,
       THEN conjunct1, rule_format, OF z, THEN conjunct2, THEN conjunct1]
    by (simp only: oz, simp)
  have go: "grid (fst (computeOmega euler_adaptive ?nz 0 ?f (\<lambda>r. (r - 3 / 4, 1)) ?q))
              = [10, 20, 1, 3 / 4]"
    using failure_keeps_recorded_points
      [of euler_adaptive ?nz 0 ?f "\<lambda>r. (r - 3 / 4, 1)" ?q DomainError,
       THEN conjunct2, rule_format, OF o, THEN conjunct2, THEN conjunct1]
    by (simp only: oo, simp)
  from z oz gz o oo go show ?thesis by blast
qed

subsection \<open>The invariant of a solution\<close>



text \<open>
  The solution has to be empty when it is handed in: neither function clears it, and a
  solution that a call has returned, handed to the same call again, holds its points
  twice.
\<close>

lemma pre_filled_solution_is_kept:
  "well_formed \<lparr>grid = [1, 2, 3], func = [0, 1, 1], deriv = [1, 0, 1 / 2]\<rparr>
   \<and> computeZeta (integrate_observed euler_method) (numericalZero (1 / 10 ^ 14)) 1
        \<lparr>grid = [1, 2, 3], func = [0, 1, 1], deriv = [1, 0, 1 / 2]\<rparr> (\<lambda>r. (1, 0))
        interval_1_3
       = (\<lparr>grid = [1, 2, 3, 1, 2, 3], func = [0, 1, 1, 0, 1, 1],
           deriv = [1, 0, 1 / 2, 1, 0, 1 / 2]\<rparr>, None)
   \<and> \<not> well_formed \<lparr>grid = [1, 2, 3, 1, 2, 3], func = [0, 1, 1, 0, 1, 1],
                       deriv = [1, 0, 1 / 2, 1, 0, 1 / 2]\<rparr>"
  by (simp add: observed_simps well_formed_def)

subsection \<open>The frame of an integration\<close>

text \<open>
  C10. \<open>computeZeta\<close> and \<open>computeOmega\<close> never clear the solution they are given. After
  a call that returns, what the three sequences held is still there, unchanged, as a
  prefix, the new points behind it; for \<open>computeOmega\<close> this is so before the final
  reversal, that is for the reverses of the sequences returned.
\<close>

theorem solution_never_cleared:
  "(computeZeta I nz L f eval p = (f', None) \<longrightarrow>
      (\<exists>pts. grid f' = grid f @ map snd pts
          \<and> func f' = func f @ map (fst \<circ> fst) pts
          \<and> deriv f' = deriv f @ map (snd \<circ> fst) pts))
   \<and> (computeOmega I nz L f eval p = (f'', None) \<longrightarrow>
      (\<exists>pts. rev (grid f'') = grid f @ map snd pts
          \<and> rev (func f'') = func f @ map (fst \<circ> fst) pts
          \<and> rev (deriv f'') = deriv f @ map (snd \<circ> fst) pts))"
proof (intro conjI impI)
  assume "computeZeta I nz L f eval p = (f', None)"
  then have "f' = record_all f (observations (LnTransformedRadial nz eval L) (zeta_call I L p))"
    using run_fst [of "LnTransformedRadial nz eval L" "zeta_call I L p" f]
    by (simp add: computeZeta_run)
  then show "\<exists>pts. grid f' = grid f @ map snd pts
          \<and> func f' = func f @ map (fst \<circ> fst) pts
          \<and> deriv f' = deriv f @ map (snd \<circ> fst) pts"
    using grid_record_all func_record_all deriv_record_all by blast
next
  assume h: "computeOmega I nz L f eval p = (f'', None)"
  let ?g = "record_all f (observations (LnTransformedRadial nz eval L) (omega_call I L p))"
  from h have "f'' = reverse ?g"
    using computeOmega_fst [of I nz L f eval p] by (simp add: Let_def)
  then have "rev (grid f'') = grid ?g" "rev (func f'') = func ?g" "rev (deriv f'') = deriv ?g"
    by (simp_all add: reverse_def)
  then show "\<exists>pts. rev (grid f'') = grid f @ map snd pts
          \<and> rev (func f'') = func f @ map (fst \<circ> fst) pts
          \<and> rev (deriv f'') = deriv f @ map (snd \<circ> fst) pts"
    using grid_record_all func_record_all deriv_record_all by metis
qed

theorem solution_never_cleared_witness:
  "computeZeta euler_adaptive (numericalZero (1 / 10 ^ 14)) 1
      \<lparr>grid = [10, 20], func = [7, 8], deriv = [5, 6]\<rparr> (\<lambda>r. (1, 0)) interval_1_3
     = (\<lparr>grid = [10, 20, 1, 2, 3], func = [7, 8, 0, 1, 1], deriv = [5, 6, 1, 0, 1 / 2]\<rparr>, None)
   \<and> (\<exists>pts. [10, 20, 1, 2, 3] = [10, 20] @ map snd pts
          \<and> [7, 8, 0, 1, 1] = [7, 8] @ map (fst \<circ> fst) pts
          \<and> [5, 6, 1, 0, 1 / 2] = [5, 6] @ map (snd \<circ> fst) (pts :: (StateType \<times> real) list))
   \<and> computeOmega euler_adaptive (numericalZero (1 / 10 ^ 14)) 0
      \<lparr>grid = [10, 20], func = [7, 8], deriv = [5, 6]\<rparr> (\<lambda>r. (1, 0)) interval_half_1
     = (\<lparr>grid = [1 / 2, 3 / 4, 1, 20, 10], func = [9 / 16, 1 / 4, 0, 8, 7],
         deriv = [- 325 / 192, - 5 / 4, - 1, 6, 5]\<rparr>, None)
   \<and> (\<exists>pts. rev [1 / 2, 3 / 4, 1, 20, 10] = [10, 20] @ map snd pts
          \<and> rev [9 / 16, 1 / 4, 0, 8, 7] = [7, 8] @ map (fst \<circ> fst) pts
          \<and> rev [- 325 / 192, - 5 / 4, - 1, 6, 5]
              = [5, 6] @ map (snd \<circ> fst) (pts :: (StateType \<times> real) list))"
proof -
  let ?f = "\<lparr>grid = [10, 20], func = [7, 8], deriv = [5, 6 :: real]\<rparr>"
  let ?p = "interval_1_3"
  let ?q = "interval_half_1"
  let ?z = "\<lparr>grid = [10, 20, 1, 2, 3], func = [7, 8, 0, 1, 1], deriv = [5, 6, 1, 0, 1 / 2 :: real]\<rparr>"
  let ?o = "\<lparr>grid = [1 / 2, 3 / 4, 1, 20, 10], func = [9 / 16, 1 / 4, 0, 8, 7],
         deriv = [- 325 / 192, - 5 / 4, - 1, 6, 5 :: real]\<rparr>"
  have z: "computeZeta euler_adaptive (numericalZero (1 / 10 ^ 14)) 1 ?f (\<lambda>r. (1, 0)) ?p
             = (?z, None)"
    by (simp add: run_simps)
  have o: "computeOmega euler_adaptive (numericalZero (1 / 10 ^ 14)) 0 ?f (\<lambda>r. (1, 0)) ?q
             = (?o, None)"
    by (simp add: run_simps)
  from z o solution_never_cleared [of euler_adaptive "numericalZero (1 / 10 ^ 14)" 1 ?f
      "\<lambda>r. (1, 0)" ?p ?z, THEN conjunct1]
    solution_never_cleared [of euler_adaptive "numericalZero (1 / 10 ^ 14)" 0 ?f
      "\<lambda>r. (1, 0)" ?q _ ?o, THEN conjunct2]
  show ?thesis by simp
qed

end
